theory Spec2Isabelle
  imports Complex_Main "HOL-Library.Word" "HOL-Library.Sublist"
begin

section \<open>Data model\<close>

text \<open>
  The RPMD integrator of \<^verbatim>\<open>plugins/rpmd/openmmapi/src/RPMDIntegrator.cpp\<close> drives three
  collaborators whose code is not part of the sources at hand: the context implementation
  (\<^verbatim>\<open>ContextImpl\<close>), the platform with its kernel factory, and the RPMD step kernel.
  The integrator itself is embedded from the source, statement by statement. The
  collaborators are either parameters (\<open>Backend\<close>: the numerical work, about which nothing is
  assumed) or modelled from the specification (marked as such at each definition).

  A \<^verbatim>\<open>double\<close> is only stored and handed on by the integrator, never computed with, so it
  is a \<open>real\<close> here; a C++ \<^verbatim>\<open>int\<close> is an \<open>int\<close>, and the one narrowing conversion of
  the source is written out (\<open>int_of_time_t\<close>).
\<close>

type_synonym Vec3 = "real \<times> real \<times> real"

datatype error =
    OpenMMException string      \<comment> \<open>thrown by the integrator itself\<close>
  | UnsupportedKernelError      \<comment> \<open>the platform has no factory for the kernel name\<close>
  | InvalidCopyIndexError       \<comment> \<open>kernel: copy index outside the beads\<close>
  | ParticleCountMismatchError  \<comment> \<open>kernel: vector of the wrong length\<close>
  | KernelTypeMismatchError     \<comment> \<open>\<^verbatim>\<open>dynamic_cast\<close> to the RPMD kernel contract failed\<close>
  | NullReference               \<comment> \<open>use of an unset pointer or of an empty kernel handle\<close>
  | NumericalError nat          \<comment> \<open>raised inside the backend, surfaced unchanged\<close>

definition AlreadyBoundError :: error where
  "AlreadyBoundError = OpenMMException ''This Integrator is already bound to a context''"

record System =
  numParticles :: nat

datatype KernelClass = RPMDStepKernelClass | OtherKernelClass

record Platform =
  registry :: "string \<Rightarrow> KernelClass option"

text \<open>
  The state a context keeps. \<open>ctxOwner\<close> is the identity (address) of the \<^verbatim>\<open>Context\<close>
  object that owns this implementation object: what \<^verbatim>\<open>getOwner()\<close> returns.
\<close>

record ContextImpl =
  ctxOwner :: nat
  ctxPlatform :: Platform
  ctxSystem :: System
  ctxTime :: real
  ctxPositions :: "Vec3 list"
  ctxVelocities :: "Vec3 list"
  ctxForces :: "Vec3 list"
  ctxKineticEnergy :: real
  ctxPotentialEnergy :: real

text \<open>
  The per-copy buffers of the RPMD kernel: one pair (positions, velocities) for each bead.
\<close>

record RPMDKernelData =
  kNumParticles :: nat
  kCopies :: "(Vec3 list \<times> Vec3 list) list"

datatype KernelImpl = IntegrateRPMDStepKernel RPMDKernelData | OtherKernel

text \<open>
  The fields of \<^verbatim>\<open>RPMDIntegrator\<close>. \<open>owner\<close> and \<open>context'\<close> are pointers (\<open>None\<close> is
  the unset pointer), \<open>kernel\<close> is the kernel handle (\<open>None\<close> is the empty handle of a
  default-constructed \<^verbatim>\<open>Kernel\<close>).
\<close>

record RPMDIntegrator =
  owner :: "nat option"
  context' :: "nat option"
  kernel :: "KernelImpl option"
  numCopies :: int
  temperature :: real
  friction :: real
  stepSize :: real
  constraintTolerance :: real
  randomSeed :: int

datatype DataType = Positions | Velocities | Forces | Energy

record State =
  stTime :: real
  stPositions :: "Vec3 list option"
  stVelocities :: "Vec3 list option"
  stForces :: "Vec3 list option"
  stEnergy :: "(real \<times> real) option"

text \<open>Calls into the collaborators, in the order they are made.\<close>

datatype Call =
    CreateKernel string
  | KernelInitialize
  | KernelSetPositions int
  | KernelSetVelocities int
  | KernelCopyToContext int
  | ContextGetState
  | UpdateContextState
  | CalcForcesAndEnergy bool bool
  | KernelExecute

text \<open>
  The store of context implementation objects by address, the integrator, and the trace of
  collaborator calls made so far.
\<close>

record World =
  contexts :: "nat \<Rightarrow> ContextImpl option"
  integrator :: RPMDIntegrator
  calls :: "Call list"

text \<open>
  The numerical collaborators, as parameters: each either raises (an error code) or returns
  the state it leaves behind. \<open>rpmdKernelName\<close> is \<^verbatim>\<open>IntegrateRPMDStepKernel::Name()\<close>,
  \<open>initialVec\<close> what a freshly allocated buffer holds.
\<close>

record Backend =
  updateContextState :: "ContextImpl \<Rightarrow> nat + ContextImpl"
  calcForcesAndEnergy :: "bool \<Rightarrow> bool \<Rightarrow> ContextImpl \<Rightarrow> nat + ContextImpl"
  execute :: "RPMDIntegrator \<Rightarrow> ContextImpl \<Rightarrow> RPMDKernelData \<Rightarrow> nat + ContextImpl \<times> RPMDKernelData"
  rpmdKernelName :: string
  initialVec :: Vec3

section \<open>Collaborators modelled from the specification\<close>

text \<open>
  Modelled from the spec: the setters of the scalar parameters, declared in
  \<^verbatim>\<open>RPMDIntegrator.h\<close> and \<^verbatim>\<open>Integrator.h\<close>, which are not among the sources. Each
  overwrites its own parameter.
\<close>

definition setTemperature :: "real \<Rightarrow> RPMDIntegrator \<Rightarrow> RPMDIntegrator" where
  "setTemperature t i = i\<lparr>temperature := t\<rparr>"

definition setFriction :: "real \<Rightarrow> RPMDIntegrator \<Rightarrow> RPMDIntegrator" where
  "setFriction f i = i\<lparr>friction := f\<rparr>"

definition setStepSize :: "real \<Rightarrow> RPMDIntegrator \<Rightarrow> RPMDIntegrator" where
  "setStepSize s i = i\<lparr>stepSize := s\<rparr>"

definition setConstraintTolerance :: "real \<Rightarrow> RPMDIntegrator \<Rightarrow> RPMDIntegrator" where
  "setConstraintTolerance tol i = i\<lparr>constraintTolerance := tol\<rparr>"

definition setRandomNumberSeed :: "int \<Rightarrow> RPMDIntegrator \<Rightarrow> RPMDIntegrator" where
  "setRandomNumberSeed seed i = i\<lparr>randomSeed := seed\<rparr>"

text \<open>
  Modelled from the spec: \<^verbatim>\<open>Platform::createKernel\<close> (the platform is not among the
  sources). The registry maps a kernel name to a factory; a platform without a factory for
  the name refuses; otherwise a new kernel object of the registered class is made, an RPMD
  kernel with no buffers yet.
\<close>

definition createKernel :: "Platform \<Rightarrow> string \<Rightarrow> error + KernelImpl" where
  "createKernel p name =
     (case registry p name of
        None \<Rightarrow> Inl UnsupportedKernelError
      | Some RPMDStepKernelClass \<Rightarrow>
          Inr (IntegrateRPMDStepKernel \<lparr>kNumParticles = 0, kCopies = []\<rparr>)
      | Some OtherKernelClass \<Rightarrow> Inr OtherKernel)"

text \<open>
  Modelled from the spec: \<^verbatim>\<open>IntegrateRPMDStepKernel::initialize(system, integrator)\<close> (the
  kernels are not among the sources). It allocates the per-copy buffers once: one position
  and one velocity vector per copy index in \<open>[0, numCopies)\<close>, each as long as the
  system's particle count.
\<close>

definition kernel_initialize ::
  "Backend \<Rightarrow> System \<Rightarrow> RPMDIntegrator \<Rightarrow> RPMDKernelData \<Rightarrow> RPMDKernelData" where
  "kernel_initialize bk sys i kd =
     kd\<lparr>kNumParticles := numParticles sys,
        kCopies := replicate (nat (numCopies i))
                     (replicate (numParticles sys) (initialVec bk),
                      replicate (numParticles sys) (initialVec bk))\<rparr>"

text \<open>
  Modelled from the spec: the per-copy accessors of the kernel. The copy index is checked
  first (an index outside the beads always gives the invalid-copy-index error), then the
  length of the vector against the particle count; only then is the bead written. The
  number of beads of a kernel is the number of its buffers.
\<close>

definition validCopy :: "int \<Rightarrow> RPMDKernelData \<Rightarrow> bool" where
  "validCopy copy kd \<longleftrightarrow> 0 \<le> copy \<and> nat copy < length (kCopies kd)"

definition kernel_setPositions ::
  "int \<Rightarrow> Vec3 list \<Rightarrow> RPMDKernelData \<Rightarrow> error + RPMDKernelData" where
  "kernel_setPositions copy pos kd =
     (if \<not> validCopy copy kd then Inl InvalidCopyIndexError
      else if length pos \<noteq> kNumParticles kd then Inl ParticleCountMismatchError
      else Inr (kd\<lparr>kCopies := (kCopies kd)[nat copy := (pos, snd (kCopies kd ! nat copy))]\<rparr>))"

definition kernel_setVelocities ::
  "int \<Rightarrow> Vec3 list \<Rightarrow> RPMDKernelData \<Rightarrow> error + RPMDKernelData" where
  "kernel_setVelocities copy vel kd =
     (if \<not> validCopy copy kd then Inl InvalidCopyIndexError
      else if length vel \<noteq> kNumParticles kd then Inl ParticleCountMismatchError
      else Inr (kd\<lparr>kCopies := (kCopies kd)[nat copy := (fst (kCopies kd ! nat copy), vel)]\<rparr>))"

definition kernel_copyToContext ::
  "int \<Rightarrow> ContextImpl \<Rightarrow> RPMDKernelData \<Rightarrow> error + ContextImpl" where
  "kernel_copyToContext copy ci kd =
     (if \<not> validCopy copy kd then Inl InvalidCopyIndexError
      else Inr (ci\<lparr>ctxPositions := fst (kCopies kd ! nat copy),
                  ctxVelocities := snd (kCopies kd ! nat copy)\<rparr>))"

text \<open>
  Modelled from the spec: \<^verbatim>\<open>Context::getState(types)\<close>, of which only the declaration is
  among the sources. The snapshot holds the time and exactly the requested fields, read
  from the live context state; reading changes nothing. The mask is the set of requested
  \<^verbatim>\<open>State::DataType\<close> values (their bit encoding is declared in \<^verbatim>\<open>State.h\<close>).
\<close>

definition Context_getState :: "DataType set \<Rightarrow> ContextImpl \<Rightarrow> State" where
  "Context_getState types ci =
     \<lparr>stTime = ctxTime ci,
      stPositions = (if Positions \<in> types then Some (ctxPositions ci) else None),
      stVelocities = (if Velocities \<in> types then Some (ctxVelocities ci) else None),
      stForces = (if Forces \<in> types then Some (ctxForces ci) else None),
      stEnergy = (if Energy \<in> types
                  then Some (ctxKineticEnergy ci, ctxPotentialEnergy ci) else None)\<rparr>"

section \<open>The integrator\<close>

text \<open>
  \<^verbatim>\<open>(int) time(NULL)\<close>: the clock reading is an input; the conversion to a 32-bit
  \<^verbatim>\<open>int\<close> keeps the low 32 bits, read as a signed number.
\<close>

definition int_of_time_t :: "int \<Rightarrow> int" where
  "int_of_time_t t = sint (word_of_int t :: 32 word)"

text \<open>
  The constructor. The initialiser list sets \<open>owner\<close> to the null pointer and \<open>numCopies\<close>
  to the argument, as it is given; the body calls the five setters. \<open>context'\<close> and
  \<open>kernel\<close> are left as the language leaves them (unset, empty handle).
\<close>

definition RPMDIntegrator_new ::
  "int \<Rightarrow> int \<Rightarrow> real \<Rightarrow> real \<Rightarrow> real \<Rightarrow> RPMDIntegrator" where
  "RPMDIntegrator_new now numCopies0 temperature0 frictionCoeff stepSize0 =
     setRandomNumberSeed (int_of_time_t now)
       (setConstraintTolerance (1 / 10 ^ 4)
         (setStepSize stepSize0
           (setFriction frictionCoeff
             (setTemperature temperature0
               \<lparr>owner = None, context' = None, kernel = None, numCopies = numCopies0,
                temperature = 0, friction = 0, stepSize = 0, constraintTolerance = 0,
                randomSeed = 0\<rparr>))))"

definition logCall :: "Call \<Rightarrow> World \<Rightarrow> World" where
  "logCall c w = w\<lparr>calls := calls w @ [c]\<rparr>"

text \<open>
  \<^verbatim>\<open>dynamic_cast<IntegrateRPMDStepKernel&>(kernel.getImpl())\<close>: an empty handle has no
  implementation to return; a kernel of another class fails the cast.
\<close>

definition castRPMD :: "KernelImpl option \<Rightarrow> error + RPMDKernelData" where
  "castRPMD k =
     (case k of
        None \<Rightarrow> Inl NullReference
      | Some OtherKernel \<Rightarrow> Inl KernelTypeMismatchError
      | Some (IntegrateRPMDStepKernel kd) \<Rightarrow> Inr kd)"

text \<open>
  \<^verbatim>\<open>RPMDIntegrator::initialize(contextRef)\<close>. The reference is the address of a context
  implementation object in the store. The check compares the owner of \<open>contextRef\<close> with the
  stored owner and throws before anything is written. After it, \<open>context'\<close> and \<open>owner\<close> are
  assigned first, then the kernel is created and assigned, then cast and initialised: an
  exception of a later statement leaves the earlier assignments in place.
\<close>

definition initialize :: "Backend \<Rightarrow> nat \<Rightarrow> World \<Rightarrow> (error + unit) \<times> World" where
  "initialize bk contextRef w =
     (case contexts w contextRef of
        None \<Rightarrow> (Inl NullReference, w)
      | Some ci \<Rightarrow>
          if owner (integrator w) \<noteq> None \<and> Some (ctxOwner ci) \<noteq> owner (integrator w)
          then (Inl AlreadyBoundError, w)
          else
            let w1 = w\<lparr>integrator := (integrator w)
                         \<lparr>context' := Some contextRef, owner := Some (ctxOwner ci)\<rparr>\<rparr>;
                w2 = logCall (CreateKernel (rpmdKernelName bk)) w1
            in (case createKernel (ctxPlatform ci) (rpmdKernelName bk) of
                  Inl e \<Rightarrow> (Inl e, w2)
                | Inr k \<Rightarrow>
                    let w3 = w2\<lparr>integrator := (integrator w2)\<lparr>kernel := Some k\<rparr>\<rparr>
                    in (case castRPMD (kernel (integrator w3)) of
                          Inl e \<Rightarrow> (Inl e, w3)
                        | Inr kd \<Rightarrow>
                            (Inr (),
                             logCall KernelInitialize
                               (w3\<lparr>integrator := (integrator w3)
                                     \<lparr>kernel := Some (IntegrateRPMDStepKernel
                                        (kernel_initialize bk (ctxSystem ci) (integrator w3) kd))\<rparr>\<rparr>)))))"

definition getKernelNames :: "Backend \<Rightarrow> string list" where
  "getKernelNames bk = [] @ [rpmdKernelName bk]"

text \<open>
  \<^verbatim>\<open>setPositions\<close> and \<^verbatim>\<open>setVelocities\<close>: cast the kernel, hand the arguments to it. The
  integrator checks nothing itself.
\<close>

definition setPositions :: "int \<Rightarrow> Vec3 list \<Rightarrow> World \<Rightarrow> (error + unit) \<times> World" where
  "setPositions copy positions w =
     (case castRPMD (kernel (integrator w)) of
        Inl e \<Rightarrow> (Inl e, w)
      | Inr kd \<Rightarrow>
          let w1 = logCall (KernelSetPositions copy) w
          in (case kernel_setPositions copy positions kd of
                Inl e \<Rightarrow> (Inl e, w1)
              | Inr kd' \<Rightarrow>
                  (Inr (), w1\<lparr>integrator := (integrator w1)
                                \<lparr>kernel := Some (IntegrateRPMDStepKernel kd')\<rparr>\<rparr>)))"

definition setVelocities :: "int \<Rightarrow> Vec3 list \<Rightarrow> World \<Rightarrow> (error + unit) \<times> World" where
  "setVelocities copy velocities w =
     (case castRPMD (kernel (integrator w)) of
        Inl e \<Rightarrow> (Inl e, w)
      | Inr kd \<Rightarrow>
          let w1 = logCall (KernelSetVelocities copy) w
          in (case kernel_setVelocities copy velocities kd of
                Inl e \<Rightarrow> (Inl e, w1)
              | Inr kd' \<Rightarrow>
                  (Inr (), w1\<lparr>integrator := (integrator w1)
                                \<lparr>kernel := Some (IntegrateRPMDStepKernel kd')\<rparr>\<rparr>)))"

text \<open>
  Dereferencing \<^verbatim>\<open>context\<close>: the pointer must be set and point to a live object.
\<close>

definition deref :: "World \<Rightarrow> error + nat \<times> ContextImpl" where
  "deref w =
     (case context' (integrator w) of
        None \<Rightarrow> Inl NullReference
      | Some c \<Rightarrow> (case contexts w c of None \<Rightarrow> Inl NullReference | Some ci \<Rightarrow> Inr (c, ci)))"

text \<open>
  \<^verbatim>\<open>getState(copy, types)\<close>: the kernel copies the bead into the context, then the owner
  of the context assembles the snapshot from the context.
\<close>

definition getState :: "int \<Rightarrow> DataType set \<Rightarrow> World \<Rightarrow> (error + State) \<times> World" where
  "getState copy types w =
     (case castRPMD (kernel (integrator w)) of
        Inl e \<Rightarrow> (Inl e, w)
      | Inr kd \<Rightarrow>
          (case deref w of
             Inl e \<Rightarrow> (Inl e, w)
           | Inr (c, ci) \<Rightarrow>
               let w1 = logCall (KernelCopyToContext copy) w
               in (case kernel_copyToContext copy ci kd of
                     Inl e \<Rightarrow> (Inl e, w1)
                   | Inr ci' \<Rightarrow>
                       let w2 = w1\<lparr>contexts := (contexts w1)(c \<mapsto> ci')\<rparr>;
                           w3 = logCall ContextGetState w2
                       in (case deref w3 of
                             Inl e \<Rightarrow> (Inl e, w3)
                           | Inr (c', cj) \<Rightarrow> (Inr (Context_getState types cj), w3)))))"

text \<open>
  One pass through the body of the loop of \<^verbatim>\<open>step\<close>. A collaborator that raises ends the
  pass; what the earlier calls of the pass wrote stays written.
\<close>

definition step_body :: "Backend \<Rightarrow> World \<Rightarrow> (error + unit) \<times> World" where
  "step_body bk w =
     (case deref w of
        Inl e \<Rightarrow> (Inl e, w)
      | Inr (c, ci) \<Rightarrow>
          let w1 = logCall UpdateContextState w
          in (case updateContextState bk ci of
                Inl n \<Rightarrow> (Inl (NumericalError n), w1)
              | Inr ci1 \<Rightarrow>
                  let w2 = logCall (CalcForcesAndEnergy True False)
                             (w1\<lparr>contexts := (contexts w1)(c \<mapsto> ci1)\<rparr>)
                  in (case calcForcesAndEnergy bk True False ci1 of
                        Inl n \<Rightarrow> (Inl (NumericalError n), w2)
                      | Inr ci2 \<Rightarrow>
                          let w3 = w2\<lparr>contexts := (contexts w2)(c \<mapsto> ci2)\<rparr>
                          in (case castRPMD (kernel (integrator w3)) of
                                Inl e \<Rightarrow> (Inl e, w3)
                              | Inr kd \<Rightarrow>
                                  let w4 = logCall KernelExecute w3
                                  in (case execute bk (integrator w4) ci2 kd of
                                        Inl n \<Rightarrow> (Inl (NumericalError n), w4)
                                      | Inr (ci3, kd') \<Rightarrow>
                                          (Inr (),
                                           w4\<lparr>contexts := (contexts w4)(c \<mapsto> ci3),
                                              integrator := (integrator w4)
                                                \<lparr>kernel := Some (IntegrateRPMDStepKernel kd')\<rparr>\<rparr>))))))"

text \<open>\<^verbatim>\<open>for (int i = 0; i < steps; ++i)\<close>, left at the first exception.\<close>

function step_loop :: "Backend \<Rightarrow> int \<Rightarrow> int \<Rightarrow> World \<Rightarrow> (error + unit) \<times> World" where
  "step_loop bk i steps w =
     (if i < steps
      then (case step_body bk w of
              (Inl e, w') \<Rightarrow> (Inl e, w')
            | (Inr u, w') \<Rightarrow> step_loop bk (i + 1) steps w')
      else (Inr (), w))"
  by pat_completeness auto
termination
  by (relation "measure (\<lambda>(bk, i, steps, w). nat (steps - i))") auto

declare step_loop.simps [simp del]

definition step :: "Backend \<Rightarrow> int \<Rightarrow> World \<Rightarrow> (error + unit) \<times> World" where
  "step bk steps w = step_loop bk 0 steps w"

section \<open>Use over a lifetime\<close>

text \<open>
  What a caller may do with the integrator, one public operation at a time. An exception
  is caught by the caller, who goes on with the state the failed operation left.
  \<open>External\<close> is everything that happens to the contexts outside the integrator: contexts
  being made, destroyed, re-initialised or written to.
\<close>

datatype Op =
    Initialize nat
  | SetPositions int "Vec3 list"
  | SetVelocities int "Vec3 list"
  | GetState int "DataType set"
  | Step int
  | SetTemperature real
  | SetFriction real
  | SetStepSize real
  | SetConstraintTolerance real
  | SetRandomNumberSeed int
  | External "nat \<Rightarrow> ContextImpl option"

fun apply_op :: "Backend \<Rightarrow> World \<Rightarrow> Op \<Rightarrow> World" where
  "apply_op bk w (Initialize c) = snd (initialize bk c w)"
| "apply_op bk w (SetPositions copy ps) = snd (setPositions copy ps w)"
| "apply_op bk w (SetVelocities copy vs) = snd (setVelocities copy vs w)"
| "apply_op bk w (GetState copy types) = snd (getState copy types w)"
| "apply_op bk w (Step n) = snd (step bk n w)"
| "apply_op bk w (SetTemperature t) = w\<lparr>integrator := setTemperature t (integrator w)\<rparr>"
| "apply_op bk w (SetFriction f) = w\<lparr>integrator := setFriction f (integrator w)\<rparr>"
| "apply_op bk w (SetStepSize s) = w\<lparr>integrator := setStepSize s (integrator w)\<rparr>"
| "apply_op bk w (SetConstraintTolerance tol) =
     w\<lparr>integrator := setConstraintTolerance tol (integrator w)\<rparr>"
| "apply_op bk w (SetRandomNumberSeed seed) =
     w\<lparr>integrator := setRandomNumberSeed seed (integrator w)\<rparr>"
| "apply_op bk w (External cs) = w\<lparr>contexts := cs\<rparr>"

definition run :: "Backend \<Rightarrow> World \<Rightarrow> Op list \<Rightarrow> World" where
  "run bk w ops = foldl (apply_op bk) w ops"

text \<open>A world with a newly constructed integrator, beside the contexts \<open>cs\<close>.\<close>

definition newWorld ::
  "(nat \<Rightarrow> ContextImpl option) \<Rightarrow> int \<Rightarrow> int \<Rightarrow> real \<Rightarrow> real \<Rightarrow> real \<Rightarrow> World" where
  "newWorld cs now numCopies0 temperature0 frictionCoeff stepSize0 =
     \<lparr>contexts = cs,
      integrator = RPMDIntegrator_new now numCopies0 temperature0 frictionCoeff stepSize0,
      calls = []\<rparr>"

text \<open>
  The integrator is bound: its context pointer is live, its owner is the owner of that
  context, and its kernel is an RPMD kernel initialised for this integrator and the
  context's system (one buffer pair per copy).
\<close>

definition bound :: "World \<Rightarrow> nat \<Rightarrow> ContextImpl \<Rightarrow> RPMDKernelData \<Rightarrow> bool" where
  "bound w c ci kd \<longleftrightarrow>
     context' (integrator w) = Some c \<and> contexts w c = Some ci \<and>
     owner (integrator w) = Some (ctxOwner ci) \<and>
     kernel (integrator w) = Some (IntegrateRPMDStepKernel kd) \<and>
     length (kCopies kd) = nat (numCopies (integrator w)) \<and>
     kNumParticles kd = numParticles (ctxSystem ci)"

text \<open>The calls of \<open>n\<close> passes through the loop of \<open>step\<close>.\<close>

definition stepCalls :: "int \<Rightarrow> Call list" where
  "stepCalls n =
     concat (replicate (nat n) [UpdateContextState, CalcForcesAndEnergy True False, KernelExecute])"

text \<open>
  A scenario to run the operations on: a system of two particles, two contexts on a
  platform that has the RPMD kernel, a backend whose calls all return, and an integrator of
  four copies at temperature 300.
\<close>

definition demoBackend :: Backend where
  "demoBackend =
     \<lparr>updateContextState = (\<lambda>ci. Inr ci),
      calcForcesAndEnergy = (\<lambda>wantForces wantEnergy ci. Inr ci),
      execute = (\<lambda>i ci kd. Inr (ci\<lparr>ctxTime := ctxTime ci + stepSize i\<rparr>, kd)),
      rpmdKernelName = ''IntegrateRPMDStep'',
      initialVec = (0, 0, 0)\<rparr>"

definition demoPlatform :: Platform where
  "demoPlatform =
     \<lparr>registry = (\<lambda>name. if name = ''IntegrateRPMDStep'' then Some RPMDStepKernelClass else None)\<rparr>"

definition demoContext :: "nat \<Rightarrow> ContextImpl" where
  "demoContext ownerId =
     \<lparr>ctxOwner = ownerId, ctxPlatform = demoPlatform, ctxSystem = \<lparr>numParticles = 2\<rparr>,
      ctxTime = 0, ctxPositions = [(0, 0, 0), (1, 0, 0)],
      ctxVelocities = [(0, 0, 0), (0, 0, 0)], ctxForces = [(0, 0, 0), (0, 0, 0)],
      ctxKineticEnergy = 0, ctxPotentialEnergy = 0\<rparr>"

definition demoContexts :: "nat \<Rightarrow> ContextImpl option" where
  "demoContexts = [0 \<mapsto> demoContext 10, 1 \<mapsto> demoContext 11]"

definition demoWorld :: World where
  "demoWorld = newWorld demoContexts 1300000000 4 300 1 (1 / 1000)"

definition demoBound :: World where
  "demoBound = snd (initialize demoBackend 0 demoWorld)"

text \<open>Two integrator states with the same construction parameters.\<close>

definition sameParams :: "RPMDIntegrator \<Rightarrow> RPMDIntegrator \<Rightarrow> bool" where
  "sameParams i j \<longleftrightarrow>
     numCopies i = numCopies j \<and> temperature i = temperature j \<and> friction i = friction j \<and>
     stepSize i = stepSize j \<and> constraintTolerance i = constraintTolerance j \<and>
     randomSeed i = randomSeed j"

text \<open>A backend none of whose calls raises.\<close>

definition returns :: "Backend \<Rightarrow> bool" where
  "returns bk \<longleftrightarrow>
     (\<forall>ci. \<not> isl (updateContextState bk ci)) \<and>
     (\<forall>wantForces wantEnergy ci. \<not> isl (calcForcesAndEnergy bk wantForces wantEnergy ci)) \<and>
     (\<forall>i ci kd. \<not> isl (execute bk i ci kd))"

text \<open>What a pass through the loop of \<open>step\<close> needs: a live context and an RPMD kernel.\<close>

definition usable :: "World \<Rightarrow> bool" where
  "usable w \<longleftrightarrow> \<not> isl (deref w) \<and> \<not> isl (castRPMD (kernel (integrator w)))"

text \<open>The two setters a default may be overridden by.\<close>

fun isSetConstraintTolerance :: "Op \<Rightarrow> bool" where
  "isSetConstraintTolerance (SetConstraintTolerance tol) = True"
| "isSetConstraintTolerance _ = False"

fun isSetRandomNumberSeed :: "Op \<Rightarrow> bool" where
  "isSetRandomNumberSeed (SetRandomNumberSeed seed) = True"
| "isSetRandomNumberSeed _ = False"

text \<open>The kernel buffers right after the scenario's integrator is bound.\<close>

definition demoKernelData :: RPMDKernelData where
  "demoKernelData =
     \<lparr>kNumParticles = 2, kCopies = replicate 4 ([(0, 0, 0), (0, 0, 0)], [(0, 0, 0), (0, 0, 0)])\<rparr>"

text \<open>The scenario after the positions of the last bead have been set.\<close>

definition demoMoved :: World where
  "demoMoved = snd (setPositions 3 [(1, 2, 3), (4, 5, 6)] demoBound)"

text \<open>
  What the specification says \<open>step(n)\<close> does to the context and the kernel, in its words:
  \<open>n\<close> times over, (a) the context applies its deferred updates, (b) forces are computed
  with forces requested and energy not, (c) the kernel executes one propagation step; each
  works on what the one before left, and the first that raises ends it. This is what the
  loop of the source is compared with.
\<close>

definition onePass ::
  "Backend \<Rightarrow> RPMDIntegrator \<Rightarrow> ContextImpl \<times> RPMDKernelData \<Rightarrow> nat + ContextImpl \<times> RPMDKernelData" where
  "onePass bk i s =
     (case updateContextState bk (fst s) of
        Inl e \<Rightarrow> Inl e
      | Inr ci1 \<Rightarrow>
          (case calcForcesAndEnergy bk True False ci1 of
             Inl e \<Rightarrow> Inl e
           | Inr ci2 \<Rightarrow>
               execute bk (i\<lparr>kernel := Some (IntegrateRPMDStepKernel (snd s))\<rparr>) ci2 (snd s)))"

fun passes ::
  "Backend \<Rightarrow> RPMDIntegrator \<Rightarrow> nat \<Rightarrow> ContextImpl \<times> RPMDKernelData \<Rightarrow> nat + ContextImpl \<times> RPMDKernelData" where
  "passes bk i 0 s = Inr s"
| "passes bk i (Suc n) s =
     (case onePass bk i s of Inl e \<Rightarrow> Inl e | Inr s' \<Rightarrow> passes bk i n s')"

text \<open>
  The world after passes that returned: the context at \<open>c\<close> and the kernel data replaced,
  the calls \<open>made\<close> appended to the trace, everything else as it was.
\<close>

definition stepped :: "World \<Rightarrow> nat \<Rightarrow> ContextImpl \<Rightarrow> RPMDKernelData \<Rightarrow> Call list \<Rightarrow> World" where
  "stepped w c ci kd made =
     w\<lparr>contexts := (contexts w)(c \<mapsto> ci),
       integrator := (integrator w)\<lparr>kernel := Some (IntegrateRPMDStepKernel kd)\<rparr>,
       calls := calls w @ made\<rparr>"

text \<open>The integrator has a live context and an RPMD kernel with data \<open>kd\<close>.\<close>

definition linked :: "World \<Rightarrow> nat \<Rightarrow> ContextImpl \<Rightarrow> RPMDKernelData \<Rightarrow> bool" where
  "linked w c ci kd \<longleftrightarrow>
     context' (integrator w) = Some c \<and> contexts w c = Some ci \<and>
     kernel (integrator w) = Some (IntegrateRPMDStepKernel kd)"

text \<open>
  A backend that shows what it was asked: the update advances the time by one, the force
  evaluation records its two flags in the energies (1 for requested, 2 for not), and the
  kernel advances the time by the step size and copies every bead's positions over its
  velocities.
\<close>

definition probeBackend :: Backend where
  "probeBackend =
     \<lparr>updateContextState = (\<lambda>ci. Inr (ci\<lparr>ctxTime := ctxTime ci + 1\<rparr>)),
      calcForcesAndEnergy = (\<lambda>wantForces wantEnergy ci.
         Inr (ci\<lparr>ctxKineticEnergy := (if wantForces then 1 else 2),
                 ctxPotentialEnergy := (if wantEnergy then 1 else 2)\<rparr>)),
      execute = (\<lambda>i ci kd.
         Inr (ci\<lparr>ctxTime := ctxTime ci + stepSize i\<rparr>,
              kd\<lparr>kCopies := map (\<lambda>b. (fst b, fst b)) (kCopies kd)\<rparr>)),
      rpmdKernelName = ''IntegrateRPMDStep'',
      initialVec = (0, 0, 0)\<rparr>"

text \<open>The kernel buffers of \<open>demoMoved\<close>.\<close>

definition demoMovedData :: RPMDKernelData where
  "demoMovedData =
     \<lparr>kNumParticles = 2,
      kCopies = replicate 3 ([(0, 0, 0), (0, 0, 0)], [(0, 0, 0), (0, 0, 0)]) @
                [([(1, 2, 3), (4, 5, 6)], [(0, 0, 0), (0, 0, 0)])]\<rparr>"

text \<open>Context and kernel buffers after two passes of \<open>probeBackend\<close> from \<open>demoMoved\<close>.\<close>

definition probeContext :: ContextImpl where
  "probeContext = (demoContext 10)
     \<lparr>ctxTime := 1001 / 500, ctxKineticEnergy := 1, ctxPotentialEnergy := 2\<rparr>"

definition probeData :: RPMDKernelData where
  "probeData =
     \<lparr>kNumParticles = 2,
      kCopies = replicate 3 ([(0, 0, 0), (0, 0, 0)], [(0, 0, 0), (0, 0, 0)]) @
                [([(1, 2, 3), (4, 5, 6)], [(1, 2, 3), (4, 5, 6)])]\<rparr>"

section \<open>Lemmas\<close>

lemmas kernel_defs = castRPMD_def createKernel_def kernel_initialize_def kernel_setPositions_def
  kernel_setVelocities_def kernel_copyToContext_def validCopy_def
lemmas setter_defs = setTemperature_def setFriction_def setStepSize_def
  setConstraintTolerance_def setRandomNumberSeed_def
lemmas demo_defs = demoBound_def demoWorld_def demoContexts_def demoContext_def demoPlatform_def
  demoBackend_def newWorld_def RPMDIntegrator_new_def

lemma initialize_params: "sameParams (integrator (snd (initialize bk c w))) (integrator w)"
  by (simp add: initialize_def sameParams_def logCall_def Let_def split: option.splits sum.splits)

lemma setPositions_params: "sameParams (integrator (snd (setPositions copy ps w))) (integrator w)"
  by (simp add: setPositions_def sameParams_def logCall_def Let_def split: option.splits sum.splits)

lemma setVelocities_params: "sameParams (integrator (snd (setVelocities copy ps w))) (integrator w)"
  by (simp add: setVelocities_def sameParams_def logCall_def Let_def split: option.splits sum.splits)

lemma getState_params: "sameParams (integrator (snd (getState copy types w))) (integrator w)"
  by (simp add: getState_def sameParams_def logCall_def Let_def split: option.splits sum.splits prod.splits)

lemma step_body_params: "sameParams (integrator (snd (step_body bk w))) (integrator w)"
  by (simp add: step_body_def sameParams_def logCall_def Let_def split: option.splits sum.splits prod.splits)

lemma sameParams_trans: "sameParams i j \<Longrightarrow> sameParams j k \<Longrightarrow> sameParams i k"
  by (simp add: sameParams_def)

lemma step_loop_unfold:
  "step_loop bk i n w =
     (if i < n
      then (if isl (fst (step_body bk w)) then step_body bk w
            else step_loop bk (i + 1) n (snd (step_body bk w)))
      else (Inr (), w))"
proof (cases "step_body bk w")
  case (Pair r w')
  then show ?thesis
    by (cases r) (simp_all add: step_loop.simps [of bk i n w])
qed

lemma step_loop_invariant:
  fixes P :: "World \<Rightarrow> bool"
  assumes keep: "\<And>v. P v \<Longrightarrow> P (snd (step_body bk v))" and start: "P w"
  shows "P (snd (step_loop bk i n w))"
  using start
proof (induction "nat (n - i)" arbitrary: i w)
  case 0
  then show ?case by (simp add: step_loop_unfold)
next
  case (Suc k)
  have "P (snd (step_loop bk (i + 1) n (snd (step_body bk w))))"
    using Suc.hyps(1) [of "i + 1" "snd (step_body bk w)"] Suc.hyps(2) keep [OF Suc.prems]
    by simp
  with Suc.prems keep [OF Suc.prems] show ?case
    by (simp add: step_loop_unfold [of bk i n w])
qed

lemma step_loop_params: "sameParams (integrator (snd (step_loop bk i n w))) (integrator w)"
proof (rule step_loop_invariant)
  show "sameParams (integrator w) (integrator w)" by (simp add: sameParams_def)
next
  fix v :: World
  assume "sameParams (integrator v) (integrator w)"
  with step_body_params [of bk v] show "sameParams (integrator (snd (step_body bk v))) (integrator w)"
    by (rule sameParams_trans)
qed

lemma apply_op_params:
  "sameParams (integrator (apply_op bk w op)) (integrator w) \<or>
   (\<exists>x. op = SetTemperature x) \<or> (\<exists>x. op = SetFriction x) \<or> (\<exists>x. op = SetStepSize x) \<or>
   (\<exists>x. op = SetConstraintTolerance x) \<or> (\<exists>x. op = SetRandomNumberSeed x)"
  by (cases op)
     (simp_all add: initialize_params setPositions_params setVelocities_params getState_params
        step_def step_loop_params, simp add: sameParams_def)

lemma apply_op_numCopies: "numCopies (integrator (apply_op bk w op)) = numCopies (integrator w)"
  using apply_op_params [of bk w op]
  by (auto simp: sameParams_def setter_defs)

lemma run_numCopies: "numCopies (integrator (run bk w ops)) = numCopies (integrator w)"
  unfolding run_def
  by (induction ops arbitrary: w) (simp_all add: apply_op_numCopies)


subsection \<open>Binding\<close>

lemma initialize_owner:
  "owner (integrator w) = Some ow \<Longrightarrow> owner (integrator (snd (initialize bk c w))) = Some ow"
  by (auto simp: initialize_def logCall_def Let_def split: option.splits sum.splits)

lemma setPositions_owner: "owner (integrator (snd (setPositions copy ps w))) = owner (integrator w)"
  by (simp add: setPositions_def logCall_def Let_def split: option.splits sum.splits)

lemma setVelocities_owner: "owner (integrator (snd (setVelocities copy ps w))) = owner (integrator w)"
  by (simp add: setVelocities_def logCall_def Let_def split: option.splits sum.splits)

lemma getState_owner: "owner (integrator (snd (getState copy types w))) = owner (integrator w)"
  by (simp add: getState_def logCall_def Let_def split: option.splits sum.splits prod.splits)

lemma step_body_owner: "owner (integrator (snd (step_body bk w))) = owner (integrator w)"
  by (simp add: step_body_def logCall_def Let_def split: option.splits sum.splits prod.splits)

lemma step_loop_owner: "owner (integrator (snd (step_loop bk i n w))) = owner (integrator w)"
proof (rule step_loop_invariant)
  show "owner (integrator w) = owner (integrator w)" by simp
next
  fix v :: World
  assume "owner (integrator v) = owner (integrator w)"
  then show "owner (integrator (snd (step_body bk v))) = owner (integrator w)"
    by (simp add: step_body_owner)
qed

lemma apply_op_owner:
  "owner (integrator w) = Some ow \<Longrightarrow> owner (integrator (apply_op bk w op)) = Some ow"
  by (cases op)
     (simp_all add: initialize_owner setPositions_owner setVelocities_owner getState_owner
        step_def step_loop_owner setter_defs)

lemma run_owner:
  "owner (integrator w) = Some ow \<Longrightarrow> owner (integrator (run bk w ops)) = Some ow"
  unfolding run_def
  by (induction ops arbitrary: w) (simp_all add: apply_op_owner)

lemma initialize_rejects:
  "owner (integrator w) = Some ow \<Longrightarrow> contexts w c = Some ci \<Longrightarrow> ctxOwner ci \<noteq> ow \<Longrightarrow>
   initialize bk c w = (Inl AlreadyBoundError, w)"
  by (simp add: initialize_def)

lemma initialize_accepts:
  assumes "owner (integrator w) = None \<or> owner (integrator w) = Some (ctxOwner ci)"
    and "contexts w c = Some ci"
    and "registry (ctxPlatform ci) (rpmdKernelName bk) = Some RPMDStepKernelClass"
  shows "fst (initialize bk c w) = Inr ()"
    and "bound (snd (initialize bk c w)) c ci
           (kernel_initialize bk (ctxSystem ci) (integrator w) \<lparr>kNumParticles = 0, kCopies = []\<rparr>)"
  using assms
  by (auto simp: initialize_def bound_def logCall_def Let_def kernel_defs)

text \<open>
  C1. Once the integrator has an owner, \<open>initialize\<close> with a context of a different owner
  throws the already-bound exception and changes nothing; with a context of the same owner
  (on a platform that has the RPMD kernel) it succeeds and the integrator is bound to that
  context; and whatever is done afterwards, the owner stays the same one.
\<close>

theorem initialize_binding_exclusive:
  assumes "owner (integrator w) = Some ow" and "contexts w c = Some ci"
  shows "(ctxOwner ci \<noteq> ow \<longrightarrow> initialize bk c w = (Inl AlreadyBoundError, w)) \<and>
         (ctxOwner ci = ow \<and> registry (ctxPlatform ci) (rpmdKernelName bk) = Some RPMDStepKernelClass \<longrightarrow>
            fst (initialize bk c w) = Inr () \<and>
            owner (integrator (snd (initialize bk c w))) = Some ow \<and>
            (\<exists>kd. bound (snd (initialize bk c w)) c ci kd)) \<and>
         (\<forall>ops. owner (integrator (run bk w ops)) = Some ow)"
proof (intro conjI impI allI)
  assume "ctxOwner ci \<noteq> ow"
  with assms show "initialize bk c w = (Inl AlreadyBoundError, w)"
    by (rule initialize_rejects)
next
  assume same: "ctxOwner ci = ow \<and> registry (ctxPlatform ci) (rpmdKernelName bk) = Some RPMDStepKernelClass"
  with assms have o: "owner (integrator w) = None \<or> owner (integrator w) = Some (ctxOwner ci)"
    by simp
  from same have r: "registry (ctxPlatform ci) (rpmdKernelName bk) = Some RPMDStepKernelClass"
    by simp
  show "fst (initialize bk c w) = Inr ()"
    using o assms(2) r by (rule initialize_accepts(1))
  show "owner (integrator (snd (initialize bk c w))) = Some ow"
    using assms(1) by (rule initialize_owner)
  show "\<exists>kd. bound (snd (initialize bk c w)) c ci kd"
    using initialize_accepts(2) [OF o assms(2) r] by blast
next
  fix ops
  show "owner (integrator (run bk w ops)) = Some ow"
    using assms(1) by (rule run_owner)
qed

lemma demoBound_eval:
  "demoBound =
     \<lparr>contexts = demoContexts,
      integrator =
        \<lparr>owner = Some 10, context' = Some 0,
         kernel = Some (IntegrateRPMDStepKernel
           \<lparr>kNumParticles = 2,
            kCopies = replicate 4 ([(0, 0, 0), (0, 0, 0)], [(0, 0, 0), (0, 0, 0)])\<rparr>),
         numCopies = 4, temperature = 300, friction = 1, stepSize = 1 / 1000,
         constraintTolerance = 1 / 10 ^ 4, randomSeed = int_of_time_t 1300000000\<rparr>,
      calls = [CreateKernel ''IntegrateRPMDStep'', KernelInitialize]\<rparr>"
  by (simp add: demo_defs setter_defs initialize_def logCall_def kernel_defs Let_def numeral_2_eq_2)

theorem initialize_binding_exclusive_witness:
  "owner (integrator demoBound) = Some 10 \<and>
   contexts demoBound 1 = Some (demoContext 11) \<and> ctxOwner (demoContext 11) \<noteq> 10 \<and>
   contexts demoBound 0 = Some (demoContext 10) \<and> ctxOwner (demoContext 10) = 10 \<and>
   initialize demoBackend 1 demoBound = (Inl AlreadyBoundError, demoBound) \<and>
   fst (initialize demoBackend 0 demoBound) = Inr () \<and>
   owner (integrator (run demoBackend demoBound [Initialize 1, Step 2, Initialize 0])) = Some 10"
proof -
  have o: "owner (integrator demoBound) = Some 10"
    by (simp add: demoBound_eval)
  have c0: "contexts demoBound 0 = Some (demoContext 10)"
    by (simp add: demoBound_eval demoContexts_def)
  have c1: "contexts demoBound 1 = Some (demoContext 11)"
    by (simp add: demoBound_eval demoContexts_def)
  have r: "registry (ctxPlatform (demoContext 10)) (rpmdKernelName demoBackend) = Some RPMDStepKernelClass"
    by (simp add: demoContext_def demoPlatform_def demoBackend_def)
  have d: "ctxOwner (demoContext 11) \<noteq> 10" "ctxOwner (demoContext 10) = 10"
    by (simp_all add: demoContext_def)
  from initialize_binding_exclusive [OF o c1, of demoBackend] d
  have 1: "initialize demoBackend 1 demoBound = (Inl AlreadyBoundError, demoBound)"
    and 3: "owner (integrator (run demoBackend demoBound [Initialize 1, Step 2, Initialize 0])) = Some 10"
    by blast+
  from initialize_binding_exclusive [OF o c0, of demoBackend] d r
  have 2: "fst (initialize demoBackend 0 demoBound) = Inr ()"
    by blast
  from o c0 c1 d 1 2 3 show ?thesis by simp
qed


subsection \<open>Stepping\<close>

lemma stepCalls_nonpositive: "n \<le> 0 \<Longrightarrow> stepCalls n = []"
  by (simp add: stepCalls_def)

lemma stepCalls_positive:
  "0 < n \<Longrightarrow>
   stepCalls n = [UpdateContextState, CalcForcesAndEnergy True False, KernelExecute] @ stepCalls (n - 1)"
proof -
  assume "0 < n"
  then have "nat n = Suc (nat (n - 1))" by simp
  then show ?thesis by (simp add: stepCalls_def)
qed

lemma step_body_calls:
  "\<exists>made. calls (snd (step_body bk w)) = calls w @ made \<and>
      prefix made [UpdateContextState, CalcForcesAndEnergy True False, KernelExecute] \<and>
      (fst (step_body bk w) = Inr () \<longrightarrow>
         made = [UpdateContextState, CalcForcesAndEnergy True False, KernelExecute])"
  by (simp add: step_body_def logCall_def Let_def split: sum.splits prod.splits)

lemma step_loop_calls:
  "\<exists>made. calls (snd (step_loop bk i n w)) = calls w @ made \<and>
      prefix made (stepCalls (n - i)) \<and>
      (fst (step_loop bk i n w) = Inr () \<longrightarrow> made = stepCalls (n - i))"
proof (induction "nat (n - i)" arbitrary: i w)
  case 0
  then show ?case
    by (simp add: step_loop_unfold stepCalls_nonpositive)
next
  case (Suc k)
  then have lt: "i < n" by simp
  have sc: "stepCalls (n - i) =
      [UpdateContextState, CalcForcesAndEnergy True False, KernelExecute] @ stepCalls (n - (i + 1))"
    using lt stepCalls_positive [of "n - i"] by (simp add: algebra_simps)
  obtain made where m: "calls (snd (step_body bk w)) = calls w @ made"
      "prefix made [UpdateContextState, CalcForcesAndEnergy True False, KernelExecute]"
      "fst (step_body bk w) = Inr () \<longrightarrow>
         made = [UpdateContextState, CalcForcesAndEnergy True False, KernelExecute]"
    using step_body_calls [of bk w] by blast
  show ?case
  proof (cases "isl (fst (step_body bk w))")
    case True
    then have "step_loop bk i n w = step_body bk w"
      using lt by (simp add: step_loop_unfold [of bk i n w])
    moreover have "prefix made (stepCalls (n - i))"
      using prefix_prefix [OF m(2), of "stepCalls (n - (i + 1))"] sc by simp
    moreover have "fst (step_body bk w) \<noteq> Inr ()"
      using True by auto
    ultimately show ?thesis using m(1) by auto
  next
    case False
    then have ok: "fst (step_body bk w) = Inr ()"
      by (cases "fst (step_body bk w)") simp_all
    have eq: "step_loop bk i n w = step_loop bk (i + 1) n (snd (step_body bk w))"
      using lt False by (simp add: step_loop_unfold [of bk i n w])
    have k: "k = nat (n - (i + 1))" using Suc.hyps(2) by simp
    obtain rest where r: "calls (snd (step_loop bk (i + 1) n (snd (step_body bk w)))) =
          calls (snd (step_body bk w)) @ rest"
        "prefix rest (stepCalls (n - (i + 1)))"
        "fst (step_loop bk (i + 1) n (snd (step_body bk w))) = Inr () \<longrightarrow>
           rest = stepCalls (n - (i + 1))"
      using Suc.hyps(1) [OF k, of "snd (step_body bk w)"] by blast
    have made: "made = [UpdateContextState, CalcForcesAndEnergy True False, KernelExecute]"
      using m(3) ok by simp
    show ?thesis
    proof (intro exI conjI impI)
      show "calls (snd (step_loop bk i n w)) = calls w @ (made @ rest)"
        using eq r(1) m(1) by simp
      show "prefix (made @ rest) (stepCalls (n - i))"
        using r(2) made sc by simp
      show "made @ rest = stepCalls (n - i)" if "fst (step_loop bk i n w) = Inr ()"
        using that eq r(3) made sc by simp
    qed
  qed
qed

lemma step_body_returns:
  assumes "returns bk" and "usable w"
  shows "fst (step_body bk w) = Inr () \<and> usable (snd (step_body bk w))"
proof -
  obtain c ci where d: "deref w = Inr (c, ci)"
    using assms(2) by (cases "deref w") (auto simp: usable_def)
  obtain kd where k: "castRPMD (kernel (integrator w)) = Inr kd"
    using assms(2) by (cases "castRPMD (kernel (integrator w))") (auto simp: usable_def)
  have "\<not> isl (updateContextState bk ci)"
    using assms(1) by (simp add: returns_def)
  then obtain ci1 where u: "updateContextState bk ci = Inr ci1"
    by (cases "updateContextState bk ci") auto
  have "\<not> isl (calcForcesAndEnergy bk True False ci1)"
    using assms(1) by (simp add: returns_def)
  then obtain ci2 where f: "calcForcesAndEnergy bk True False ci1 = Inr ci2"
    by (cases "calcForcesAndEnergy bk True False ci1") auto
  have "\<not> isl (execute bk (integrator w) ci2 kd)"
    using assms(1) by (simp add: returns_def)
  then obtain ci3 kd' where
    e: "execute bk (integrator w) ci2 kd = Inr (ci3, kd')"
    by (cases "execute bk (integrator w) ci2 kd") auto
  have c: "context' (integrator w) = Some c"
    using d by (auto simp: deref_def split: option.splits)
  show ?thesis
    using d k u f e c
    by (simp add: step_body_def logCall_def Let_def usable_def deref_def castRPMD_def)
qed

lemma step_loop_returns:
  assumes "returns bk" and "usable w"
  shows "fst (step_loop bk i n w) = Inr ()"
  using assms(2)
proof (induction "nat (n - i)" arbitrary: i w)
  case 0
  then show ?case by (simp add: step_loop_unfold)
next
  case (Suc k)
  have b: "fst (step_body bk w) = Inr ()" "usable (snd (step_body bk w))"
    using step_body_returns [OF assms(1) Suc.prems] by simp_all
  have "fst (step_loop bk (i + 1) n (snd (step_body bk w))) = Inr ()"
    using Suc.hyps(1) [of "i + 1" "snd (step_body bk w)"] Suc.hyps(2) b(2) by simp
  with b(1) show ?case
    by (simp add: step_loop_unfold [of bk i n w])
qed

lemma bound_usable: "bound w c ci kd \<Longrightarrow> usable w"
  by (simp add: bound_def usable_def deref_def castRPMD_def)

lemma onePass_kernel: "onePass bk (i\<lparr>kernel := k\<rparr>) s = onePass bk i s"
  by (simp add: onePass_def split: sum.splits)

lemma passes_kernel: "passes bk (i\<lparr>kernel := k\<rparr>) n s = passes bk i n s"
  by (induction n arbitrary: s) (simp_all add: onePass_kernel split: sum.splits)

lemma stepped_same: "linked w c ci kd \<Longrightarrow> stepped w c ci kd [] = w"
proof -
  assume l: "linked w c ci kd"
  then have "(contexts w)(c \<mapsto> ci) = contexts w"
    by (simp add: linked_def map_upd_triv)
  moreover have "(integrator w)\<lparr>kernel := Some (IntegrateRPMDStepKernel kd)\<rparr> = integrator w"
    using l by (simp add: linked_def)
  ultimately show ?thesis by (simp add: stepped_def)
qed

lemma linked_stepped: "linked w c ci kd \<Longrightarrow> linked (stepped w c ci' kd' made) c ci' kd'"
  by (simp add: linked_def stepped_def)

lemma stepped_stepped:
  "stepped (stepped w c ci kd made) c ci' kd' made' = stepped w c ci' kd' (made @ made')"
  by (simp add: stepped_def)

lemma integrator_stepped:
  "integrator (stepped w c ci kd made) = (integrator w)\<lparr>kernel := Some (IntegrateRPMDStepKernel kd)\<rparr>"
  by (simp add: stepped_def)

lemma step_body_onePass:
  assumes "linked w c ci kd"
  shows "onePass bk (integrator w) (ci, kd) = Inr (ci', kd') \<Longrightarrow>
           step_body bk w =
             (Inr (), stepped w c ci' kd'
                [UpdateContextState, CalcForcesAndEnergy True False, KernelExecute])"
    and "onePass bk (integrator w) (ci, kd) = Inl e \<Longrightarrow>
           fst (step_body bk w) = Inl (NumericalError e)"
proof -
  have i: "(integrator w)\<lparr>kernel := Some (IntegrateRPMDStepKernel kd)\<rparr> = integrator w"
    using assms by (simp add: linked_def)
  have d: "deref w = Inr (c, ci)"
    using assms by (simp add: linked_def deref_def)
  have k: "castRPMD (kernel (integrator w)) = Inr kd"
    using assms by (simp add: linked_def castRPMD_def)
  show "onePass bk (integrator w) (ci, kd) = Inr (ci', kd') \<Longrightarrow>
           step_body bk w =
             (Inr (), stepped w c ci' kd'
                [UpdateContextState, CalcForcesAndEnergy True False, KernelExecute])"
    using d k
    by (auto simp: onePass_def i step_body_def stepped_def logCall_def Let_def
        split: sum.splits)
  show "onePass bk (integrator w) (ci, kd) = Inl e \<Longrightarrow>
           fst (step_body bk w) = Inl (NumericalError e)"
    using d k
    by (auto simp: onePass_def i step_body_def logCall_def Let_def split: sum.splits)
qed

lemma step_loop_passes:
  assumes "linked w c ci kd"
    and "passes bk (integrator w) (nat (n - i)) (ci, kd) = Inr (ci', kd')"
  shows "step_loop bk i n w = (Inr (), stepped w c ci' kd' (stepCalls (n - i)))"
  using assms
proof (induction "nat (n - i)" arbitrary: i w ci kd)
  case 0
  then have "ci' = ci" "kd' = kd" "n \<le> i" by simp_all
  with 0 show ?case
    by (simp add: step_loop_unfold stepCalls_nonpositive stepped_same)
next
  case (Suc m)
  then have lt: "i < n" by simp
  have m: "m = nat (n - (i + 1))" using Suc.hyps(2) by simp
  have p: "passes bk (integrator w) (Suc m) (ci, kd) = Inr (ci', kd')"
    using Suc.prems(2) Suc.hyps(2) by simp
  then obtain ci1 kd1 where o: "onePass bk (integrator w) (ci, kd) = Inr (ci1, kd1)"
    and r: "passes bk (integrator w) m (ci1, kd1) = Inr (ci', kd')"
    by (auto split: sum.splits)
  let ?w1 = "stepped w c ci1 kd1 [UpdateContextState, CalcForcesAndEnergy True False, KernelExecute]"
  have b: "step_body bk w = (Inr (), ?w1)"
    using step_body_onePass(1) [OF Suc.prems(1) o] .
  have l1: "linked ?w1 c ci1 kd1"
    using Suc.prems(1) by (rule linked_stepped)
  have r1: "passes bk (integrator ?w1) (nat (n - (i + 1))) (ci1, kd1) = Inr (ci', kd')"
    using r m by (simp add: integrator_stepped passes_kernel)
  have "step_loop bk (i + 1) n ?w1 = (Inr (), stepped ?w1 c ci' kd' (stepCalls (n - (i + 1))))"
    using Suc.hyps(1) [OF m l1 r1] .
  moreover have "stepCalls (n - i) =
      [UpdateContextState, CalcForcesAndEnergy True False, KernelExecute] @ stepCalls (n - (i + 1))"
    using lt stepCalls_positive [of "n - i"] by (simp add: algebra_simps)
  ultimately show ?case
    using lt b by (simp add: step_loop_unfold [of bk i n w] stepped_stepped)
qed

lemma step_loop_fails:
  assumes "linked w c ci kd"
    and "passes bk (integrator w) (nat (n - i)) (ci, kd) = Inl e"
  shows "fst (step_loop bk i n w) = Inl (NumericalError e)"
  using assms
proof (induction "nat (n - i)" arbitrary: i w ci kd)
  case 0
  then show ?case by simp
next
  case (Suc m)
  then have lt: "i < n" by simp
  have m: "m = nat (n - (i + 1))" using Suc.hyps(2) by simp
  have p: "passes bk (integrator w) (Suc m) (ci, kd) = Inl e"
    using Suc.prems(2) Suc.hyps(2) by simp
  show ?case
  proof (cases "onePass bk (integrator w) (ci, kd)")
    case (Inl e')
    with p have "e' = e" by simp
    with Inl have "fst (step_body bk w) = Inl (NumericalError e)"
      using step_body_onePass(2) [OF Suc.prems(1)] by simp
    then show ?thesis
      using lt by (simp add: step_loop_unfold [of bk i n w])
  next
    case (Inr s1)
    obtain ci1 kd1 where s1: "s1 = (ci1, kd1)" by (cases s1)
    let ?w1 = "stepped w c ci1 kd1 [UpdateContextState, CalcForcesAndEnergy True False, KernelExecute]"
    have b: "step_body bk w = (Inr (), ?w1)"
      using step_body_onePass(1) [OF Suc.prems(1)] Inr s1 by simp
    have l1: "linked ?w1 c ci1 kd1"
      using Suc.prems(1) by (rule linked_stepped)
    have r1: "passes bk (integrator ?w1) (nat (n - (i + 1))) (ci1, kd1) = Inl e"
      using p Inr s1 m by (simp add: integrator_stepped passes_kernel)
    have "fst (step_loop bk (i + 1) n ?w1) = Inl (NumericalError e)"
      using Suc.hyps(1) [OF m l1 r1] .
    then show ?thesis
      using lt b by (simp add: step_loop_unfold [of bk i n w])
  qed
qed

lemma bound_linked: "bound w c ci kd \<Longrightarrow> linked w c ci kd"
  by (simp add: bound_def linked_def)

text \<open>
  C2. For a bound integrator, \<open>step n\<close> does what \<open>n\<close> passes do, each pass being the
  context's \<open>updateContextState\<close>, then \<open>calcForcesAndEnergy(true, false)\<close>, then the
  kernel's \<open>execute\<close>, each applied to what the one before left: when the passes return,
  \<open>step\<close> returns, the context and the kernel hold their result, the trace has grown by
  exactly these calls in this order, and nothing else has changed; when a collaborator
  raises, \<open>step\<close> raises what it raised. A \<open>step\<close> that returns has made exactly the
  calls of \<open>n\<close> passes; it does return when no collaborator raises; and when one raises,
  the calls made are an initial part of that sequence.
\<close>

theorem step_calls_in_order:
  assumes "bound w c ci kd"
  shows "(\<forall>ci' kd'. passes bk (integrator w) (nat n) (ci, kd) = Inr (ci', kd') \<longrightarrow>
            step bk n w = (Inr (), stepped w c ci' kd' (stepCalls n))) \<and>
         (\<forall>e. passes bk (integrator w) (nat n) (ci, kd) = Inl e \<longrightarrow>
            fst (step bk n w) = Inl (NumericalError e)) \<and>
         (fst (step bk n w) = Inr () \<longrightarrow> calls (snd (step bk n w)) = calls w @ stepCalls n) \<and>
         (returns bk \<longrightarrow> fst (step bk n w) = Inr ()) \<and>
         (\<exists>made. calls (snd (step bk n w)) = calls w @ made \<and> prefix made (stepCalls n))"
proof -
  obtain made where m: "calls (snd (step bk n w)) = calls w @ made" "prefix made (stepCalls n)"
      "fst (step bk n w) = Inr () \<longrightarrow> made = stepCalls n"
    using step_loop_calls [of bk 0 n w] by (auto simp: step_def)
  have r: "fst (step bk n w) = Inr ()" if "returns bk"
    using step_loop_returns [OF that bound_usable [OF assms]] by (simp add: step_def)
  have l: "linked w c ci kd"
    using assms by (rule bound_linked)
  have p: "step bk n w = (Inr (), stepped w c ci' kd' (stepCalls n))"
    if "passes bk (integrator w) (nat n) (ci, kd) = Inr (ci', kd')" for ci' kd'
    using step_loop_passes [OF l, of bk n 0 ci' kd'] that by (simp add: step_def)
  have f: "fst (step bk n w) = Inl (NumericalError e)"
    if "passes bk (integrator w) (nat n) (ci, kd) = Inl e" for e
    using step_loop_fails [OF l, of bk n 0 e] that by (simp add: step_def)
  from m r p f show ?thesis by auto
qed

text \<open>
  C9. \<open>step n\<close> with \<open>n \<le> 0\<close> returns without an error and leaves everything as it was:
  no collaborator is called (the trace is part of the state), no context and no copy changes.
\<close>

theorem step_no_iterations: "n \<le> 0 \<Longrightarrow> step bk n w = (Inr (), w)"
  by (simp add: step_def step_loop_unfold)


lemma demoBound_bound: "bound demoBound 0 (demoContext 10) demoKernelData"
  by (simp add: bound_def demoBound_eval demoContexts_def demoContext_def demoKernelData_def)

lemma demoBackend_returns: "returns demoBackend"
  by (simp add: returns_def demoBackend_def)

theorem step_no_iterations_witness:
  "(- 3 :: int) \<le> 0 \<and> step demoBackend (- 3) demoBound = (Inr (), demoBound)"
  using step_no_iterations [of "- 3" demoBackend demoBound] by simp

subsection \<open>Per-copy access\<close>

lemma bound_validCopy:
  "bound w c ci kd \<Longrightarrow> validCopy copy kd \<longleftrightarrow> 0 \<le> copy \<and> copy < numCopies (integrator w)"
  by (auto simp: bound_def validCopy_def)

text \<open>
  C3. For a bound integrator and a copy index within \<open>[0, numCopies)\<close>, \<open>getState\<close> has
  the kernel copy that bead into the context and then has the snapshot assembled from the
  context, in this order and with no other call. Afterwards the context holds the bead's
  positions and velocities, and the positions and velocities of the snapshot, when
  requested, are the bead's, whatever the context held before. The integrator itself is
  unchanged.
\<close>

theorem getState_flushes_copy:
  assumes "bound w c ci kd" and "0 \<le> copy" and "copy < numCopies (integrator w)"
  shows "fst (getState copy types w) =
           Inr (Context_getState types
                 (ci\<lparr>ctxPositions := fst (kCopies kd ! nat copy),
                     ctxVelocities := snd (kCopies kd ! nat copy)\<rparr>)) \<and>
         contexts (snd (getState copy types w)) =
           (contexts w)(c \<mapsto> ci\<lparr>ctxPositions := fst (kCopies kd ! nat copy),
                                  ctxVelocities := snd (kCopies kd ! nat copy)\<rparr>) \<and>
         calls (snd (getState copy types w)) =
           calls w @ [KernelCopyToContext copy, ContextGetState] \<and>
         integrator (snd (getState copy types w)) = integrator w \<and>
         (Positions \<in> types \<longrightarrow>
            (\<exists>st. fst (getState copy types w) = Inr st \<and>
                  stPositions st = Some (fst (kCopies kd ! nat copy)))) \<and>
         (Velocities \<in> types \<longrightarrow>
            (\<exists>st. fst (getState copy types w) = Inr st \<and>
                  stVelocities st = Some (snd (kCopies kd ! nat copy))))"
proof -
  have v: "validCopy copy kd"
    using assms bound_validCopy by simp
  have k: "castRPMD (kernel (integrator w)) = Inr kd"
    using assms(1) by (simp add: bound_def castRPMD_def)
  have d: "deref w = Inr (c, ci)"
    using assms(1) by (simp add: bound_def deref_def)
  have c: "context' (integrator w) = Some c"
    using assms(1) by (simp add: bound_def)
  show ?thesis
    using v k d c
    by (simp add: getState_def kernel_copyToContext_def logCall_def Let_def deref_def
        Context_getState_def)
qed

text \<open>
  C4. For a bound integrator and a copy index outside \<open>[0, numCopies)\<close>, each of
  \<open>setPositions\<close>, \<open>setVelocities\<close> and \<open>getState\<close> fails with the invalid-copy-index
  error, and neither the integrator (with the per-copy buffers of its kernel) nor any
  context is changed.
\<close>

theorem invalid_copy_index_rejected:
  assumes "bound w c ci kd" and "\<not> (0 \<le> copy \<and> copy < numCopies (integrator w))"
  shows "fst (setPositions copy ps w) = Inl InvalidCopyIndexError \<and>
         integrator (snd (setPositions copy ps w)) = integrator w \<and>
         contexts (snd (setPositions copy ps w)) = contexts w \<and>
         fst (setVelocities copy vs w) = Inl InvalidCopyIndexError \<and>
         integrator (snd (setVelocities copy vs w)) = integrator w \<and>
         contexts (snd (setVelocities copy vs w)) = contexts w \<and>
         fst (getState copy types w) = Inl InvalidCopyIndexError \<and>
         integrator (snd (getState copy types w)) = integrator w \<and>
         contexts (snd (getState copy types w)) = contexts w"
proof -
  have v: "\<not> validCopy copy kd"
    using assms bound_validCopy by simp
  have k: "castRPMD (kernel (integrator w)) = Inr kd"
    using assms(1) by (simp add: bound_def castRPMD_def)
  have d: "deref w = Inr (c, ci)"
    using assms(1) by (simp add: bound_def deref_def)
  show ?thesis
    using v k d
    by (simp add: setPositions_def setVelocities_def getState_def kernel_setPositions_def
        kernel_setVelocities_def kernel_copyToContext_def logCall_def Let_def)
qed


lemma demoMoved_eval:
  "demoMoved =
     \<lparr>contexts = demoContexts,
      integrator =
        \<lparr>owner = Some 10, context' = Some 0,
         kernel = Some (IntegrateRPMDStepKernel
           \<lparr>kNumParticles = 2,
            kCopies = replicate 3 ([(0, 0, 0), (0, 0, 0)], [(0, 0, 0), (0, 0, 0)]) @
                      [([(1, 2, 3), (4, 5, 6)], [(0, 0, 0), (0, 0, 0)])]\<rparr>),
         numCopies = 4, temperature = 300, friction = 1, stepSize = 1 / 1000,
         constraintTolerance = 1 / 10 ^ 4, randomSeed = int_of_time_t 1300000000\<rparr>,
      calls = [CreateKernel ''IntegrateRPMDStep'', KernelInitialize, KernelSetPositions 3]\<rparr>"
  by (simp add: demoMoved_def demoBound_eval setPositions_def logCall_def kernel_defs Let_def
      numeral_3_eq_3 eval_nat_numeral)

lemma demoMoved_bound:
  "bound demoMoved 0 (demoContext 10)
     \<lparr>kNumParticles = 2,
      kCopies = replicate 3 ([(0, 0, 0), (0, 0, 0)], [(0, 0, 0), (0, 0, 0)]) @
                [([(1, 2, 3), (4, 5, 6)], [(0, 0, 0), (0, 0, 0)])]\<rparr>"
  by (simp add: bound_def demoMoved_eval demoContexts_def demoContext_def)

lemma demoMoved_bound': "bound demoMoved 0 (demoContext 10) demoMovedData"
  using demoMoved_bound by (simp add: demoMovedData_def)

lemma probe_passes:
  "passes probeBackend (integrator demoMoved) (nat 2) (demoContext 10, demoMovedData) =
     Inr (probeContext, probeData)"
  by (simp add: numeral_2_eq_2 onePass_def probeBackend_def demoMoved_eval demoMovedData_def
      probeContext_def probeData_def demoContext_def)

theorem step_calls_in_order_witness:
  "bound demoMoved 0 (demoContext 10) demoMovedData \<and>
   passes probeBackend (integrator demoMoved) (nat 2) (demoContext 10, demoMovedData) =
     Inr (probeContext, probeData) \<and>
   step probeBackend 2 demoMoved =
     (Inr (),
      demoMoved\<lparr>contexts := (contexts demoMoved)(0 \<mapsto> probeContext),
                integrator := (integrator demoMoved)
                  \<lparr>kernel := Some (IntegrateRPMDStepKernel probeData)\<rparr>,
                calls := calls demoMoved @
                  [UpdateContextState, CalcForcesAndEnergy True False, KernelExecute,
                   UpdateContextState, CalcForcesAndEnergy True False, KernelExecute]\<rparr>) \<and>
   ctxKineticEnergy probeContext = 1 \<and> ctxPotentialEnergy probeContext = 2 \<and>
   ctxKineticEnergy (demoContext 10) = 0 \<and> ctxPotentialEnergy (demoContext 10) = 0 \<and>
   returns demoBackend \<and>
   fst (step demoBackend 2 demoBound) = Inr () \<and>
   calls (snd (step demoBackend 2 demoBound)) =
     calls demoBound @
     [UpdateContextState, CalcForcesAndEnergy True False, KernelExecute,
      UpdateContextState, CalcForcesAndEnergy True False, KernelExecute]"
proof -
  have s: "stepCalls 2 =
     [UpdateContextState, CalcForcesAndEnergy True False, KernelExecute,
      UpdateContextState, CalcForcesAndEnergy True False, KernelExecute]"
    by (simp add: stepCalls_def numeral_2_eq_2)
  from step_calls_in_order [OF demoMoved_bound', of probeBackend 2] probe_passes
  have a: "step probeBackend 2 demoMoved =
      (Inr (), stepped demoMoved 0 probeContext probeData (stepCalls 2))"
    by blast
  from step_calls_in_order [OF demoBound_bound, of demoBackend 2] demoBackend_returns
  have b: "fst (step demoBackend 2 demoBound) = Inr ()"
    "calls (snd (step demoBackend 2 demoBound)) = calls demoBound @ stepCalls 2"
    by blast+
  have e: "ctxKineticEnergy probeContext = 1" "ctxPotentialEnergy probeContext = 2"
    "ctxKineticEnergy (demoContext 10) = 0" "ctxPotentialEnergy (demoContext 10) = 0"
    by (simp_all add: probeContext_def demoContext_def)
  from a b e demoMoved_bound' probe_passes demoBackend_returns show ?thesis
    by (simp add: s stepped_def)
qed

theorem getState_flushes_copy_witness:
  "(0 :: int) \<le> 3 \<and> 3 < numCopies (integrator demoMoved) \<and>
   ctxPositions (demoContext 10) = [(0, 0, 0), (1, 0, 0)] \<and>
   (\<exists>st. fst (getState 3 {Positions} demoMoved) = Inr st \<and>
         stPositions st = Some [(1, 2, 3), (4, 5, 6)]) \<and>
   (\<exists>ci'. contexts (snd (getState 3 {Positions} demoMoved)) 0 = Some ci' \<and>
          ctxPositions ci' = [(1, 2, 3), (4, 5, 6)])"
proof -
  have n: "(0 :: int) \<le> 3" "3 < numCopies (integrator demoMoved)"
    by (simp_all add: demoMoved_eval)
  have e: "(replicate 3 ([(0, 0, 0), (0, 0, 0)], [(0, 0, 0), (0, 0, 0)]) @
            [([(1, 2, 3), (4, 5, 6)], [(0, 0, 0), (0, 0, 0)])]) ! 3 =
           ([(1 :: real, 2 :: real, 3 :: real), (4, 5, 6)], [(0 :: real, 0 :: real, 0 :: real), (0, 0, 0)])"
    by (simp add: nth_append)
  from getState_flushes_copy [OF demoMoved_bound n, of "{Positions}"]
  show ?thesis
    using n by (simp add: e demoContext_def Context_getState_def)
qed

theorem invalid_copy_index_rejected_witness:
  "bound demoBound 0 (demoContext 10) demoKernelData \<and>
   \<not> (0 \<le> (4 :: int) \<and> 4 < numCopies (integrator demoBound)) \<and>
   fst (setPositions 4 [(1, 2, 3), (4, 5, 6)] demoBound) = Inl InvalidCopyIndexError \<and>
   fst (setVelocities (- 1) [(1, 2, 3), (4, 5, 6)] demoBound) = Inl InvalidCopyIndexError \<and>
   fst (getState 4 {Positions} demoBound) = Inl InvalidCopyIndexError \<and>
   integrator (snd (setPositions 4 [(1, 2, 3), (4, 5, 6)] demoBound)) = integrator demoBound"
proof -
  have a: "\<not> (0 \<le> (4 :: int) \<and> 4 < numCopies (integrator demoBound))"
    by (simp add: demoBound_eval)
  have b: "\<not> (0 \<le> (- 1 :: int) \<and> - 1 < numCopies (integrator demoBound))"
    by simp
  from invalid_copy_index_rejected [OF demoBound_bound a]
    invalid_copy_index_rejected [OF demoBound_bound b] a demoBound_bound
  show ?thesis by simp
qed

text \<open>
  Before the first bind the kernel handle is empty: there is nothing to check the index,
  and the three operations fail on the handle itself.
\<close>

theorem invalid_copy_index_unbound_counterexample:
  "\<not> (0 \<le> (4 :: int) \<and> 4 < numCopies (integrator demoWorld)) \<and>
   fst (setPositions 4 [(1, 2, 3), (4, 5, 6)] demoWorld) \<noteq> Inl InvalidCopyIndexError \<and>
   fst (setVelocities 4 [(1, 2, 3), (4, 5, 6)] demoWorld) \<noteq> Inl InvalidCopyIndexError \<and>
   fst (getState 4 {Positions} demoWorld) \<noteq> Inl InvalidCopyIndexError \<and>
   fst (setPositions 4 [(1, 2, 3), (4, 5, 6)] demoWorld) = Inl NullReference"
  by (simp add: demoWorld_def newWorld_def RPMDIntegrator_new_def setter_defs setPositions_def
      setVelocities_def getState_def castRPMD_def)


subsection \<open>Construction\<close>

lemma int_of_time_t_in_range: "- (2 ^ 31) \<le> t \<Longrightarrow> t < 2 ^ 31 \<Longrightarrow> int_of_time_t t = t"
  by (simp add: int_of_time_t_def signed_take_bit_int_eq_self sint_sbintrunc')

text \<open>
  C7, without the lower bound. \<open>numCopies\<close> is what the constructor was given, and it stays
  so whatever public operations follow, in any order and with any outcome.
\<close>

theorem numCopies_fixed:
  "numCopies (RPMDIntegrator_new now n t f s) = n \<and>
   numCopies (integrator (run bk (newWorld cs now n t f s) ops)) = n"
  by (simp add: run_numCopies newWorld_def RPMDIntegrator_new_def setter_defs)

text \<open>
  The constructor stores its argument unchecked: constructed with zero copies, the
  integrator has zero copies.
\<close>

theorem numCopies_positive_counterexample:
  "\<not> 1 \<le> numCopies (RPMDIntegrator_new 1300000000 0 300 1 (1 / 1000))"
  by (simp add: RPMDIntegrator_new_def setter_defs)

theorem numCopies_fixed_witness:
  "numCopies (integrator (run demoBackend demoWorld
     [Initialize 0, SetPositions 0 [(1, 2, 3), (4, 5, 6)], Step 2, Initialize 1])) = 4"
  using numCopies_fixed [of 1300000000 4 300 1 "1 / 1000" demoBackend demoContexts
      "[Initialize 0, SetPositions 0 [(1, 2, 3), (4, 5, 6)], Step 2, Initialize 1]"]
  by (simp add: demoWorld_def)

lemma apply_op_constraintTolerance:
  "\<not> isSetConstraintTolerance op \<Longrightarrow>
   constraintTolerance (integrator (apply_op bk w op)) = constraintTolerance (integrator w)"
  using apply_op_params [of bk w op]
  by (auto simp: sameParams_def setter_defs)

lemma apply_op_randomSeed:
  "\<not> isSetRandomNumberSeed op \<Longrightarrow>
   randomSeed (integrator (apply_op bk w op)) = randomSeed (integrator w)"
  using apply_op_params [of bk w op]
  by (auto simp: sameParams_def setter_defs)

lemma run_constraintTolerance:
  "\<forall>op \<in> set ops. \<not> isSetConstraintTolerance op \<Longrightarrow>
   constraintTolerance (integrator (run bk w ops)) = constraintTolerance (integrator w)"
  unfolding run_def
  by (induction ops arbitrary: w) (simp_all add: apply_op_constraintTolerance)

lemma run_randomSeed:
  "\<forall>op \<in> set ops. \<not> isSetRandomNumberSeed op \<Longrightarrow>
   randomSeed (integrator (run bk w ops)) = randomSeed (integrator w)"
  unfolding run_def
  by (induction ops arbitrary: w) (simp_all add: apply_op_randomSeed)

text \<open>
  C8. A newly constructed integrator has constraint tolerance \<open>1e-4\<close> and, as random seed,
  the clock reading converted to \<^verbatim>\<open>int\<close> (the reading itself when it fits). Each keeps its
  value through every sequence of public operations without its own setter, and its setter
  overrides it.
\<close>

theorem construction_defaults:
  "constraintTolerance (RPMDIntegrator_new now n t f s) = 1 / 10 ^ 4 \<and>
   randomSeed (RPMDIntegrator_new now n t f s) = int_of_time_t now \<and>
   (- (2 ^ 31) \<le> now \<and> now < 2 ^ 31 \<longrightarrow> randomSeed (RPMDIntegrator_new now n t f s) = now) \<and>
   ((\<forall>op \<in> set ops. \<not> isSetConstraintTolerance op) \<longrightarrow>
      constraintTolerance (integrator (run bk (newWorld cs now n t f s) ops)) = 1 / 10 ^ 4) \<and>
   ((\<forall>op \<in> set ops. \<not> isSetRandomNumberSeed op) \<longrightarrow>
      randomSeed (integrator (run bk (newWorld cs now n t f s) ops)) = int_of_time_t now) \<and>
   constraintTolerance (integrator (apply_op bk w (SetConstraintTolerance tol))) = tol \<and>
   randomSeed (integrator (apply_op bk w (SetRandomNumberSeed seed))) = seed"
proof -
  have c: "constraintTolerance (RPMDIntegrator_new now n t f s) = 1 / 10 ^ 4"
    and r: "randomSeed (RPMDIntegrator_new now n t f s) = int_of_time_t now"
    by (simp_all add: RPMDIntegrator_new_def setter_defs)
  have "constraintTolerance (integrator (run bk (newWorld cs now n t f s) ops)) = 1 / 10 ^ 4"
    if "\<forall>op \<in> set ops. \<not> isSetConstraintTolerance op"
    using run_constraintTolerance [OF that, of bk "newWorld cs now n t f s"] c
    by (simp add: newWorld_def)
  moreover have "randomSeed (integrator (run bk (newWorld cs now n t f s) ops)) = int_of_time_t now"
    if "\<forall>op \<in> set ops. \<not> isSetRandomNumberSeed op"
    using run_randomSeed [OF that, of bk "newWorld cs now n t f s"] r
    by (simp add: newWorld_def)
  ultimately show ?thesis
    using c r by (simp add: setter_defs int_of_time_t_in_range)
qed

theorem construction_defaults_witness:
  "constraintTolerance (integrator (run demoBackend demoWorld
      [Initialize 0, SetRandomNumberSeed 5, SetPositions 0 [(1, 2, 3), (4, 5, 6)], Step 2])) = 1 / 10 ^ 4 \<and>
   randomSeed (integrator (run demoBackend demoWorld
      [Initialize 0, SetConstraintTolerance (1 / 10 ^ 5), Step 2])) = 1300000000 \<and>
   randomSeed (integrator demoWorld) = 1300000000"
proof -
  have 1: "\<forall>op \<in> set [Initialize 0, SetRandomNumberSeed 5,
      SetPositions 0 [(1, 2, 3), (4, 5, 6)], Step 2]. \<not> isSetConstraintTolerance op"
    by simp
  have 2: "\<forall>op \<in> set [Initialize 0, SetConstraintTolerance (1 / 10 ^ 5), Step 2].
      \<not> isSetRandomNumberSeed op"
    by simp
  have 3: "- (2 ^ 31) \<le> (1300000000 :: int) \<and> (1300000000 :: int) < 2 ^ 31"
    by simp
  have t: "int_of_time_t 1300000000 = 1300000000"
    using int_of_time_t_in_range [of 1300000000] by simp
  from construction_defaults [of 1300000000 4 300 1 "1 / 1000"
      "[Initialize 0, SetRandomNumberSeed 5, SetPositions 0 [(1, 2, 3), (4, 5, 6)], Step 2]"
      demoBackend demoContexts] 1
  have a: "constraintTolerance (integrator (run demoBackend demoWorld
      [Initialize 0, SetRandomNumberSeed 5, SetPositions 0 [(1, 2, 3), (4, 5, 6)], Step 2])) = 1 / 10 ^ 4"
    unfolding demoWorld_def by blast
  from construction_defaults [of 1300000000 4 300 1 "1 / 1000"
      "[Initialize 0, SetConstraintTolerance (1 / 10 ^ 5), Step 2]"
      demoBackend demoContexts] 2 3
  have b: "randomSeed (integrator (run demoBackend demoWorld
      [Initialize 0, SetConstraintTolerance (1 / 10 ^ 5), Step 2])) = 1300000000"
    and c: "randomSeed (integrator demoWorld) = 1300000000"
    unfolding demoWorld_def newWorld_def using t by simp_all
  from a b c show ?thesis by simp
qed

subsection \<open>Re-binding\<close>

text \<open>
  C10. Every \<open>initialize\<close> that succeeds, whether the first or a repeated one, has asked
  the platform for a kernel and initialised it, and has overwritten the stored context
  pointer, owner and kernel: the kernel afterwards is the newly initialised one, with
  \<open>numCopies\<close> buffers of the particle count all holding the initial vector, whatever
  kernel and per-copy data were stored before.
\<close>

theorem initialize_makes_new_kernel:
  assumes "fst (initialize bk c w) = Inr ()"
  shows "\<exists>ci. contexts w c = Some ci \<and>
           integrator (snd (initialize bk c w)) =
             (integrator w)
               \<lparr>context' := Some c, owner := Some (ctxOwner ci),
                kernel := Some (IntegrateRPMDStepKernel
                  \<lparr>kNumParticles = numParticles (ctxSystem ci),
                   kCopies = replicate (nat (numCopies (integrator w)))
                     (replicate (numParticles (ctxSystem ci)) (initialVec bk),
                      replicate (numParticles (ctxSystem ci)) (initialVec bk))\<rparr>)\<rparr> \<and>
           calls (snd (initialize bk c w)) =
             calls w @ [CreateKernel (rpmdKernelName bk), KernelInitialize] \<and>
           contexts (snd (initialize bk c w)) = contexts w"
  using assms
  by (auto simp: initialize_def logCall_def Let_def kernel_defs
      split: option.splits sum.splits if_splits KernelClass.splits)

theorem initialize_makes_new_kernel_witness:
  "fst (initialize demoBackend 0 demoMoved) = Inr () \<and>
   kernel (integrator (snd (initialize demoBackend 0 demoMoved))) = kernel (integrator demoBound) \<and>
   kernel (integrator (snd (initialize demoBackend 0 demoMoved))) \<noteq> kernel (integrator demoMoved) \<and>
   calls (snd (initialize demoBackend 0 demoMoved)) =
     calls demoMoved @ [CreateKernel ''IntegrateRPMDStep'', KernelInitialize]"
proof -
  have ok: "fst (initialize demoBackend 0 demoMoved) = Inr ()"
    by (simp add: demoMoved_eval initialize_def logCall_def kernel_defs Let_def demoContexts_def
        demoContext_def demoPlatform_def demoBackend_def)
  from initialize_makes_new_kernel [OF ok] ok
  show ?thesis
    by (simp add: demoMoved_eval demoBound_eval demoContexts_def demoContext_def demoBackend_def
        eval_nat_numeral)
qed

end
